theory Spec2Isabelle
  imports Main "HOL-Library.Multiset" "HOL-Library.Code_Target_Numeral"
begin

section \<open>JavaScript values, requests and responses\<close>

text \<open>
  The route handlers of \<^verbatim>\<open>api/src/routes/mysql.routes.js\<close> and
  \<^verbatim>\<open>api/src/routes/postgresql.routes.js\<close> read three properties of the parsed JSON body,
  test them with JavaScript truthiness and with \<^verbatim>\<open>!== undefined\<close>, and hand them
  unchanged to \<^verbatim>\<open>pool.query\<close>. The values are therefore modelled as the JSON value
  universe extended with \<^verbatim>\<open>undefined\<close>. JSON numbers are represented by integers: the
  handlers only ever ask whether a number is zero. A string is the list of its bytes.
\<close>

datatype jsval =
    JUndefined
  | JNull
  | JBool bool
  | JNum int
  | JStr string
  | JArr "jsval list"
  | JObj "(string \<times> jsval) list"

text \<open>JavaScript truthiness (\<^verbatim>\<open>!x\<close>, \<^verbatim>\<open>x && y\<close>, \<^verbatim>\<open>x || y\<close>).\<close>

fun truthy :: "jsval \<Rightarrow> bool" where
  "truthy JUndefined = False"
| "truthy JNull = False"
| "truthy (JBool b) = b"
| "truthy (JNum n) = (n \<noteq> 0)"
| "truthy (JStr s) = (s \<noteq> [])"
| "truthy (JArr xs) = True"
| "truthy (JObj kvs) = True"

text \<open>\<^verbatim>\<open>a || b\<close>\<close>

definition js_or :: "jsval \<Rightarrow> jsval \<Rightarrow> jsval" where
  "js_or a b = (if truthy a then a else b)"

text \<open>
  The request body is the object produced by \<^verbatim>\<open>express.json()\<close>, kept as its list of
  members in textual order. Reading a property that is not there yields
  \<^verbatim>\<open>undefined\<close>; of a repeated member name the last occurrence counts.
\<close>

type_synonym jsobject = "(string \<times> jsval) list"

definition get_prop :: "jsobject \<Rightarrow> string \<Rightarrow> jsval" where
  "get_prop obj k = (case map_of (rev obj) k of None \<Rightarrow> JUndefined | Some v \<Rightarrow> v)"

text \<open>\<^verbatim>\<open>xs[i]\<close>: reading past the end of an array yields \<^verbatim>\<open>undefined\<close>.\<close>

definition js_index :: "jsval list \<Rightarrow> nat \<Rightarrow> jsval" where
  "js_index xs i = (if i < length xs then xs ! i else JUndefined)"

text \<open>\<^verbatim>\<open>Array.prototype.join\<close> on an array of strings.\<close>

fun join :: "string \<Rightarrow> string list \<Rightarrow> string" where
  "join sep [] = []"
| "join sep [x] = x"
| "join sep (x # y # ys) = x @ sep @ join sep (y # ys)"

text \<open>
  \<^verbatim>\<open>validStatuses.includes(status)\<close>: the array holds strings, and
  \<^verbatim>\<open>includes\<close> compares without conversion, so only a string can be found in it.
\<close>

definition validStatuses :: "string list" where
  "validStatuses = [''pending'', ''in_progress'', ''completed'']"

definition js_includes :: "string list \<Rightarrow> jsval \<Rightarrow> bool" where
  "js_includes xs v = (case v of JStr s \<Rightarrow> s \<in> set xs | _ \<Rightarrow> False)"

text \<open>Decimal rendering of a number inside a template literal.\<close>

fun show_nat :: "nat \<Rightarrow> string" where
  "show_nat n =
     (if n < 10 then [''0123456789'' ! n]
      else show_nat (n div 10) @ [''0123456789'' ! (n mod 10)])"

declare show_nat.simps [simp del]

text \<open>
  A statement handed to \<^verbatim>\<open>pool.query(sql, params)\<close>, and the parts of the driver's
  answer that the handlers read: the rows (\<^verbatim>\<open>[rows]\<close> of mysql2 for a
  \<^verbatim>\<open>SELECT\<close>, \<^verbatim>\<open>result.rows\<close> of pg), and \<^verbatim>\<open>insertId\<close> and
  \<^verbatim>\<open>affectedRows\<close> of the mysql2 result header. A rejected promise carries an error
  whose \<^verbatim>\<open>message\<close> is a string.
\<close>

record query =
  sql :: string
  params :: "jsval list"

record qresult =
  rows :: "jsval list"
  insertId :: int
  affectedRows :: nat

type_synonym answer = "string + qresult"

record response =
  status_code :: nat
  body :: jsobject

text \<open>
  A handler is an \<^verbatim>\<open>async\<close> function whose only suspension points are the calls
  \<^verbatim>\<open>await pool.query(...)\<close>. It is modelled by the tree of its possible runs: it either
  sends a response, or issues a statement and continues with the answer of the pool
  (\<open>Inl\<close> the message of a thrown error, \<open>Inr\<close> the result). A handler that is a
  \<open>Respond\<close> node never calls the pool.
\<close>

datatype prog =
    Respond response
  | Query query "answer \<Rightarrow> prog"

text \<open>
  \<^verbatim>\<open>res.status(c).json(obj)\<close>: members whose value is \<^verbatim>\<open>undefined\<close> are left out
  by \<^verbatim>\<open>JSON.stringify\<close>.
\<close>

definition json :: "jsobject \<Rightarrow> jsobject" where
  "json obj = filter (\<lambda>kv. snd kv \<noteq> JUndefined) obj"

definition respond :: "nat \<Rightarrow> jsobject \<Rightarrow> prog" where
  "respond c obj = Respond \<lparr>status_code = c, body = json obj\<rparr>"

text \<open>The \<^verbatim>\<open>catch\<close> block shared by all handlers, with its own text for each route.\<close>

definition failure :: "string \<Rightarrow> string \<Rightarrow> prog" where
  "failure what message =
     respond 500 [(''success'', JBool False), (''error'', JStr what), (''message'', JStr message)]"

definition not_found :: prog where
  "not_found = respond 404 [(''success'', JBool False), (''error'', JStr ''Task not found'')]"

definition invalid_status :: prog where
  "invalid_status =
     respond 400 [(''success'', JBool False),
                  (''error'', JStr (''Invalid status. Must be one of: '' @ join '', '' validStatuses))]"

section \<open>The MySQL routes\<close>

definition mysql_get_tasks :: prog where
  "mysql_get_tasks =
     Query \<lparr>sql = ''SELECT * FROM tasks ORDER BY created_at DESC'', params = []\<rparr>
       (\<lambda>a. case a of
          Inl message \<Rightarrow> failure ''Failed to fetch tasks'' message
        | Inr result \<Rightarrow>
            respond 200 [(''success'', JBool True),
                         (''data'', JArr (rows result)),
                         (''count'', JNum (int (length (rows result))))])"

definition mysql_get_task :: "string \<Rightarrow> prog" where
  "mysql_get_task ident =
     Query \<lparr>sql = ''SELECT * FROM tasks WHERE id = ?'', params = [JStr ident]\<rparr>
       (\<lambda>a. case a of
          Inl message \<Rightarrow> failure ''Failed to fetch task'' message
        | Inr result \<Rightarrow>
            if length (rows result) = 0 then not_found
            else respond 200 [(''success'', JBool True), (''data'', js_index (rows result) 0)])"

definition mysql_post_task :: "jsobject \<Rightarrow> prog" where
  "mysql_post_task reqbody =
     (let title = get_prop reqbody ''title'';
          description = get_prop reqbody ''description'';
          status = get_prop reqbody ''status''
      in if \<not> truthy title then
           respond 400 [(''success'', JBool False), (''error'', JStr ''Title is required'')]
         else if truthy status \<and> \<not> js_includes validStatuses status then invalid_status
         else
           Query \<lparr>sql = ''INSERT INTO tasks (title, description, status) VALUES (?, ?, ?)'',
                  params = [title, js_or description JNull, js_or status (JStr ''pending'')]\<rparr>
             (\<lambda>a. case a of
                Inl message \<Rightarrow> failure ''Failed to create task'' message
              | Inr result \<Rightarrow>
                  Query \<lparr>sql = ''SELECT * FROM tasks WHERE id = ?'',
                         params = [JNum (insertId result)]\<rparr>
                    (\<lambda>b. case b of
                       Inl message \<Rightarrow> failure ''Failed to create task'' message
                     | Inr newTask \<Rightarrow>
                         respond 201 [(''success'', JBool True),
                                      (''data'', js_index (rows newTask) 0),
                                      (''message'', JStr ''Task created successfully'')])))"

text \<open>
  The three \<^verbatim>\<open>if (x !== undefined) { updates.push(...); values.push(x) }\<close> blocks of the
  update route: one step appends the assignment text and the value when the property is
  present.
\<close>

definition mysql_push :: "string \<Rightarrow> jsval \<Rightarrow> string list \<times> jsval list \<Rightarrow> string list \<times> jsval list" where
  "mysql_push col v acc =
     (if v \<noteq> JUndefined then (fst acc @ [col @ '' = ?''], snd acc @ [v]) else acc)"

definition mysql_put_task :: "string \<Rightarrow> jsobject \<Rightarrow> prog" where
  "mysql_put_task ident reqbody =
     (let title = get_prop reqbody ''title'';
          description = get_prop reqbody ''description'';
          status = get_prop reqbody ''status''
      in if truthy status \<and> \<not> js_includes validStatuses status then invalid_status
         else
           let acc = mysql_push ''status'' status
                       (mysql_push ''description'' description
                         (mysql_push ''title'' title ([], [])));
               updates = fst acc;
               vals = snd acc
           in if length updates = 0 then
                respond 400 [(''success'', JBool False), (''error'', JStr ''No fields to update'')]
              else
                Query \<lparr>sql = ''UPDATE tasks SET '' @ join '', '' updates @ '' WHERE id = ?'',
                       params = vals @ [JStr ident]\<rparr>
                  (\<lambda>a. case a of
                     Inl message \<Rightarrow> failure ''Failed to update task'' message
                   | Inr result \<Rightarrow>
                       if affectedRows result = 0 then not_found
                       else
                         Query \<lparr>sql = ''SELECT * FROM tasks WHERE id = ?'',
                                params = [JStr ident]\<rparr>
                           (\<lambda>b. case b of
                              Inl message \<Rightarrow> failure ''Failed to update task'' message
                            | Inr updatedTask \<Rightarrow>
                                respond 200 [(''success'', JBool True),
                                             (''data'', js_index (rows updatedTask) 0),
                                             (''message'', JStr ''Task updated successfully'')])))"

definition mysql_delete_task :: "string \<Rightarrow> prog" where
  "mysql_delete_task ident =
     Query \<lparr>sql = ''DELETE FROM tasks WHERE id = ?'', params = [JStr ident]\<rparr>
       (\<lambda>a. case a of
          Inl message \<Rightarrow> failure ''Failed to delete task'' message
        | Inr result \<Rightarrow>
            if affectedRows result = 0 then not_found
            else respond 200 [(''success'', JBool True),
                              (''message'', JStr ''Task deleted successfully'')])"

section \<open>The PostgreSQL routes\<close>

definition pg_get_tasks :: prog where
  "pg_get_tasks =
     Query \<lparr>sql = ''SELECT * FROM tasks ORDER BY created_at DESC'', params = []\<rparr>
       (\<lambda>a. case a of
          Inl message \<Rightarrow> failure ''Failed to fetch tasks'' message
        | Inr result \<Rightarrow>
            respond 200 [(''success'', JBool True),
                         (''data'', JArr (rows result)),
                         (''count'', JNum (int (length (rows result))))])"

definition pg_get_task :: "string \<Rightarrow> prog" where
  "pg_get_task ident =
     Query \<lparr>sql = ''SELECT * FROM tasks WHERE id = $1'', params = [JStr ident]\<rparr>
       (\<lambda>a. case a of
          Inl message \<Rightarrow> failure ''Failed to fetch task'' message
        | Inr result \<Rightarrow>
            if length (rows result) = 0 then not_found
            else respond 200 [(''success'', JBool True), (''data'', js_index (rows result) 0)])"

definition pg_insert_sql :: string where
  "pg_insert_sql =
     ''INSERT INTO tasks (title, description, status) \<newline>'' @
     ''       VALUES ($1, $2, $3) \<newline>'' @
     ''       RETURNING *''"

definition pg_post_task :: "jsobject \<Rightarrow> prog" where
  "pg_post_task reqbody =
     (let title = get_prop reqbody ''title'';
          description = get_prop reqbody ''description'';
          status = get_prop reqbody ''status''
      in if \<not> truthy title then
           respond 400 [(''success'', JBool False), (''error'', JStr ''Title is required'')]
         else if truthy status \<and> \<not> js_includes validStatuses status then invalid_status
         else
           Query \<lparr>sql = pg_insert_sql,
                  params = [title, js_or description JNull, js_or status (JStr ''pending'')]\<rparr>
             (\<lambda>a. case a of
                Inl message \<Rightarrow> failure ''Failed to create task'' message
              | Inr result \<Rightarrow>
                  respond 201 [(''success'', JBool True),
                               (''data'', js_index (rows result) 0),
                               (''message'', JStr ''Task created successfully'')]))"

text \<open>
  The PostgreSQL variant of the push step also threads \<^verbatim>\<open>parameterIndex\<close>, which is
  incremented after it has been written into the placeholder.
\<close>

definition pg_push ::
  "string \<Rightarrow> jsval \<Rightarrow> string list \<times> jsval list \<times> nat \<Rightarrow> string list \<times> jsval list \<times> nat" where
  "pg_push col v acc =
     (case acc of (updates, vals, parameterIndex) \<Rightarrow>
        if v \<noteq> JUndefined
        then (updates @ [col @ '' = $'' @ show_nat parameterIndex], vals @ [v], parameterIndex + 1)
        else acc)"

definition pg_update_sql :: "string list \<Rightarrow> nat \<Rightarrow> string" where
  "pg_update_sql updates parameterIndex =
     ''UPDATE tasks \<newline>'' @
     ''       SET '' @ join '', '' updates @ '' \<newline>'' @
     ''       WHERE id = $'' @ show_nat parameterIndex @ ''\<newline>'' @
     ''       RETURNING *''"

definition pg_put_task :: "string \<Rightarrow> jsobject \<Rightarrow> prog" where
  "pg_put_task ident reqbody =
     (let title = get_prop reqbody ''title'';
          description = get_prop reqbody ''description'';
          status = get_prop reqbody ''status''
      in if truthy status \<and> \<not> js_includes validStatuses status then invalid_status
         else
           case pg_push ''status'' status
                  (pg_push ''description'' description
                    (pg_push ''title'' title ([], [], 1))) of
             (updates, vals, parameterIndex) \<Rightarrow>
               if length updates = 0 then
                 respond 400 [(''success'', JBool False), (''error'', JStr ''No fields to update'')]
               else
                 Query \<lparr>sql = pg_update_sql updates parameterIndex,
                        params = vals @ [JStr ident]\<rparr>
                   (\<lambda>a. case a of
                      Inl message \<Rightarrow> failure ''Failed to update task'' message
                    | Inr result \<Rightarrow>
                        if length (rows result) = 0 then not_found
                        else respond 200 [(''success'', JBool True),
                                          (''data'', js_index (rows result) 0),
                                          (''message'', JStr ''Task updated successfully'')]))"

definition pg_delete_task :: "string \<Rightarrow> prog" where
  "pg_delete_task ident =
     Query \<lparr>sql = ''DELETE FROM tasks WHERE id = $1 RETURNING *'', params = [JStr ident]\<rparr>
       (\<lambda>a. case a of
          Inl message \<Rightarrow> failure ''Failed to delete task'' message
        | Inr result \<Rightarrow>
            if length (rows result) = 0 then not_found
            else respond 200 [(''success'', JBool True),
                              (''message'', JStr ''Task deleted successfully''),
                              (''deletedTask'', js_index (rows result) 0)])"

section \<open>Routing\<close>

text \<open>
  The five routes of a router, and the two routers mounted by \<^verbatim>\<open>api/src/index.js\<close>
  under \<^verbatim>\<open>/api/mysql\<close> and \<^verbatim>\<open>/api/postgresql\<close>.
\<close>

datatype request =
    GetTasks
  | GetTask string
  | PostTask jsobject
  | PutTask string jsobject
  | DeleteTask string

datatype backend = MySQL | PostgreSQL

fun routes :: "backend \<Rightarrow> request \<Rightarrow> prog" where
  "routes MySQL GetTasks = mysql_get_tasks"
| "routes MySQL (GetTask ident) = mysql_get_task ident"
| "routes MySQL (PostTask reqbody) = mysql_post_task reqbody"
| "routes MySQL (PutTask ident reqbody) = mysql_put_task ident reqbody"
| "routes MySQL (DeleteTask ident) = mysql_delete_task ident"
| "routes PostgreSQL GetTasks = pg_get_tasks"
| "routes PostgreSQL (GetTask ident) = pg_get_task ident"
| "routes PostgreSQL (PostTask reqbody) = pg_post_task reqbody"
| "routes PostgreSQL (PutTask ident reqbody) = pg_put_task ident reqbody"
| "routes PostgreSQL (DeleteTask ident) = pg_delete_task ident"

text \<open>
  Observations on a handler: the first statement it issues (if any), the list of all
  statements it issues and the response it sends when every call of the pool is given the
  same answer.
\<close>

fun issued :: "prog \<Rightarrow> query option" where
  "issued (Respond r) = None"
| "issued (Query q k) = Some q"

primrec statements :: "answer \<Rightarrow> prog \<Rightarrow> query list" where
  "statements a (Respond r) = []"
| "statements a (Query q k) = q # statements a (k a)"

primrec reply :: "answer \<Rightarrow> prog \<Rightarrow> response" where
  "reply a (Respond r) = r"
| "reply a (Query q k) = reply a (k a)"

text \<open>
  Running a handler against a pool with state \<open>'s\<close>: every statement is answered by
  \<open>pool\<close>, which may change the state. \<open>None\<close> means that the pool gives no answer
  for a statement (it is outside of what the pool models).
\<close>

primrec run :: "(query \<Rightarrow> 's \<Rightarrow> (answer \<times> 's) option) \<Rightarrow> prog \<Rightarrow> 's \<Rightarrow> (response \<times> 's) option" where
  "run pool (Respond r) s = Some (r, s)"
| "run pool (Query q k) s =
     (case pool q s of None \<Rightarrow> None | Some (a, s') \<Rightarrow> run pool (k a) s')"

section \<open>The health endpoint\<close>

text \<open>
  \<^verbatim>\<open>testConnection\<close> of \<^verbatim>\<open>config/mysql.js\<close> and of \<^verbatim>\<open>config/postgresql.js\<close>: the
  body of the \<^verbatim>\<open>try\<close> block either runs to its \<^verbatim>\<open>return true\<close>, or something in it
  throws and the \<^verbatim>\<open>catch\<close> block returns \<^verbatim>\<open>false\<close>. Neither function ever throws.
\<close>

datatype probe = Connected | Refused string

fun testConnection :: "probe \<Rightarrow> bool" where
  "testConnection Connected = True"
| "testConnection (Refused message) = False"

text \<open>
  \<^verbatim>\<open>app.get('/health')\<close> as written in \<^verbatim>\<open>api/src/index.js\<close>, lines 86 to 103. The
  timestamp is \<^verbatim>\<open>new Date().toISOString()\<close>, an input of the model.
\<close>

definition health_both :: "string \<Rightarrow> probe \<Rightarrow> probe \<Rightarrow> response" where
  "health_both timestamp mysqlProbe postgresProbe =
     (let mysqlStatus = testConnection mysqlProbe;
          postgresStatus = testConnection postgresProbe;
          isHealthy = (mysqlStatus \<and> postgresStatus)
      in \<lparr>status_code = (if isHealthy then 200 else 503),
          body = json
            [(''status'', JStr (if isHealthy then ''healthy'' else ''unhealthy'')),
             (''timestamp'', JStr timestamp),
             (''databases'', JObj
                [(''mysql'', JStr (if mysqlStatus then ''connected'' else ''disconnected'')),
                 (''postgresql'', JStr (if postgresStatus then ''connected'' else ''disconnected''))])]\<rparr>)"

text \<open>
  The second variant of the endpoint (lines 293 to 325), which reads
  \<^verbatim>\<open>process.env.NODE_ENV\<close> (\<open>None\<close> when the variable is not set). Its \<^verbatim>\<open>catch\<close>
  block is not reachable, since \<^verbatim>\<open>testConnection\<close> does not throw.
\<close>

definition health_mode :: "string option \<Rightarrow> string \<Rightarrow> probe \<Rightarrow> probe \<Rightarrow> response" where
  "health_mode node_env timestamp mysqlProbe postgresProbe =
     (let mysqlStatus = testConnection mysqlProbe;
          postgresStatus = testConnection postgresProbe;
          isProduction = (node_env = Some ''production'');
          isHealthy = (if isProduction then postgresStatus else (mysqlStatus \<and> postgresStatus))
      in \<lparr>status_code = (if isHealthy then 200 else 503),
          body = json
            [(''status'', JStr (if isHealthy then ''healthy'' else ''unhealthy'')),
             (''timestamp'', JStr timestamp),
             (''environment'', JStr (case node_env of
                                        None \<Rightarrow> ''development''
                                      | Some e \<Rightarrow> if e = [] then ''development'' else e)),
             (''databases'', JObj
                [(''mysql'', JStr (if mysqlStatus then ''connected'' else ''disconnected'')),
                 (''postgresql'', JStr (if postgresStatus then ''connected'' else ''disconnected''))]),
             (''note'', if isProduction
                        then JStr ''MySQL not available in production (free tier limitation)''
                        else JNull)]\<rparr>)"

section \<open>Notions used to state the properties\<close>


text \<open>
  The outcome of the repository for one request is an answer of the pool. The handlers of the
  two routers read different parts of it (the mysql2 header or the rows), so an answer that
  stands for one outcome has a row exactly when a row was affected.
\<close>

definition same_outcome :: "answer \<Rightarrow> bool" where
  "same_outcome a = (case a of Inl message \<Rightarrow> True
                             | Inr result \<Rightarrow> (affectedRows result = 0) = (rows result = []))"

text \<open>
  The probes required by the operating mode, in the words of the claim: PostgreSQL alone in
  production, both MySQL and PostgreSQL otherwise.
\<close>

definition required_probes_succeed :: "string option \<Rightarrow> bool \<Rightarrow> bool \<Rightarrow> bool" where
  "required_probes_succeed node_env mysql_ok postgres_ok =
     (if node_env = Some ''production'' then postgres_ok else mysql_ok \<and> postgres_ok)"


section \<open>The tasks table and the statements run on it\<close>

text \<open>
  The table \<^verbatim>\<open>tasks\<close> created by \<^verbatim>\<open>database/mysql/init.sql\<close> and by the PostgreSQL
  initialisation script: \<^verbatim>\<open>id\<close> is generated (\<^verbatim>\<open>AUTO_INCREMENT\<close>, \<^verbatim>\<open>SERIAL\<close>),
  \<^verbatim>\<open>title\<close> is \<^verbatim>\<open>VARCHAR(255) NOT NULL\<close>, \<^verbatim>\<open>description\<close> is a nullable
  \<^verbatim>\<open>TEXT\<close>, \<^verbatim>\<open>status\<close> is a nullable enumeration of \<open>pending\<close>,
  \<open>in_progress\<close>, \<open>completed\<close>, and \<^verbatim>\<open>created_at\<close> and \<^verbatim>\<open>updated_at\<close> default
  to \<^verbatim>\<open>CURRENT_TIMESTAMP\<close>. A timestamp is a reading of the server clock, counted in ticks
  of the resolution of the column; the reading at which a statement runs is an input of the
  model. The rows are kept in the order of their insertion, together with the next identifier
  to be generated.
\<close>

record task =
  task_id :: nat
  task_title :: string
  task_description :: "string option"
  task_status :: "string option"
  created_at :: nat
  updated_at :: nat

record database =
  tasks :: "task list"
  next_id :: nat

text \<open>A row as the drivers hand it to the handlers.\<close>

definition nullable :: "string option \<Rightarrow> jsval" where
  "nullable v = (case v of None \<Rightarrow> JNull | Some s \<Rightarrow> JStr s)"

definition task_json :: "task \<Rightarrow> jsval" where
  "task_json t =
     JObj [(''id'', JNum (int (task_id t))),
           (''title'', JStr (task_title t)),
           (''description'', nullable (task_description t)),
           (''status'', nullable (task_status t)),
           (''created_at'', JNum (int (created_at t))),
           (''updated_at'', JNum (int (updated_at t)))]"

text \<open>
  The model answers the statements that the handlers issue, for parameters that the column
  types accept as they are: a string of at most 255 bytes for the title, a string or
  \<^verbatim>\<open>null\<close> for the description (at most 65535 bytes in a MySQL \<^verbatim>\<open>TEXT\<close>), one of the
  three enumerated strings or \<^verbatim>\<open>null\<close> for the status, and an unsigned decimal numeral or
  a non-negative number within the range of a 32-bit \<^verbatim>\<open>INT\<close> for the identifier. For any
  other parameter the model gives no answer (\<open>None\<close>): the conversions and the errors of
  the drivers and servers are not part of it, and neither is a server that cannot be reached.
\<close>

definition int_max :: nat where
  "int_max = 2147483647"

definition digit_of :: "char \<Rightarrow> nat option" where
  "digit_of c = (let n = (of_char c :: nat) in if 48 \<le> n \<and> n \<le> 57 then Some (n - 48) else None)"

fun parse_digits :: "nat \<Rightarrow> string \<Rightarrow> nat option" where
  "parse_digits acc [] = Some acc"
| "parse_digits acc (c # cs) =
     (case digit_of c of None \<Rightarrow> None | Some d \<Rightarrow> parse_digits (10 * acc + d) cs)"

definition parse_nat :: "string \<Rightarrow> nat option" where
  "parse_nat s = (if s = [] then None else parse_digits 0 s)"

definition as_id :: "jsval \<Rightarrow> nat option" where
  "as_id v =
     (case v of
        JStr s \<Rightarrow> (case parse_nat s of
                     None \<Rightarrow> None
                   | Some n \<Rightarrow> if n \<le> int_max then Some n else None)
      | JNum i \<Rightarrow> if 0 \<le> i \<and> i \<le> int int_max then Some (nat i) else None
      | _ \<Rightarrow> None)"

definition as_title :: "jsval \<Rightarrow> string option" where
  "as_title v = (case v of JStr s \<Rightarrow> if length s \<le> 255 then Some s else None | _ \<Rightarrow> None)"

definition as_description :: "backend \<Rightarrow> jsval \<Rightarrow> string option option" where
  "as_description b v =
     (case v of
        JNull \<Rightarrow> Some None
      | JStr s \<Rightarrow> if b = PostgreSQL \<or> length s \<le> 65535 then Some (Some s) else None
      | _ \<Rightarrow> None)"

definition as_status :: "jsval \<Rightarrow> string option option" where
  "as_status v =
     (case v of
        JNull \<Rightarrow> Some None
      | JStr s \<Rightarrow> if s \<in> set validStatuses then Some (Some s) else None
      | _ \<Rightarrow> None)"

text \<open>The texts of the statements, as the route handlers of each router write them.\<close>

definition select_all_sql :: string where
  "select_all_sql = ''SELECT * FROM tasks ORDER BY created_at DESC''"

fun select_sql :: "backend \<Rightarrow> string" where
  "select_sql MySQL = ''SELECT * FROM tasks WHERE id = ?''"
| "select_sql PostgreSQL = ''SELECT * FROM tasks WHERE id = $1''"

fun insert_sql :: "backend \<Rightarrow> string" where
  "insert_sql MySQL = ''INSERT INTO tasks (title, description, status) VALUES (?, ?, ?)''"
| "insert_sql PostgreSQL = pg_insert_sql"

fun delete_sql :: "backend \<Rightarrow> string" where
  "delete_sql MySQL = ''DELETE FROM tasks WHERE id = ?''"
| "delete_sql PostgreSQL = ''DELETE FROM tasks WHERE id = $1 RETURNING *''"

fun update_sql :: "backend \<Rightarrow> string list \<Rightarrow> string" where
  "update_sql MySQL cols =
     ''UPDATE tasks SET '' @ join '', '' (map (\<lambda>c. c @ '' = ?'') cols) @ '' WHERE id = ?''"
| "update_sql PostgreSQL cols =
     pg_update_sql (map (\<lambda>ci. fst ci @ '' = $'' @ show_nat (snd ci)) (zip cols [1, 2, 3]))
       (length cols + 1)"

text \<open>The lists of columns that an \<^verbatim>\<open>UPDATE\<close> of the handlers can assign.\<close>

definition column_sets :: "string list list" where
  "column_sets =
     [[''title''], [''description''], [''status''],
      [''title'', ''description''], [''title'', ''status''], [''description'', ''status''],
      [''title'', ''description'', ''status'']]"

text \<open>\<^verbatim>\<open>SET col = value\<close> on one row, for each assigned column in turn.\<close>

definition set_column :: "backend \<Rightarrow> string \<Rightarrow> jsval \<Rightarrow> (task \<Rightarrow> task) option" where
  "set_column b c v =
     (if c = ''title'' then map_option (\<lambda>s t. t\<lparr>task_title := s\<rparr>) (as_title v)
      else if c = ''description'' then map_option (\<lambda>d t. t\<lparr>task_description := d\<rparr>) (as_description b v)
      else if c = ''status'' then map_option (\<lambda>s t. t\<lparr>task_status := s\<rparr>) (as_status v)
      else None)"

fun set_columns :: "backend \<Rightarrow> string list \<Rightarrow> jsval list \<Rightarrow> (task \<Rightarrow> task) option" where
  "set_columns b [] [] = Some (\<lambda>t. t)"
| "set_columns b (c # cs) (v # vs) =
     (case set_column b c v of
        None \<Rightarrow> None
      | Some f \<Rightarrow> (case set_columns b cs vs of None \<Rightarrow> None | Some g \<Rightarrow> Some (\<lambda>t. g (f t))))"
| "set_columns b [] (v # vs) = None"
| "set_columns b (c # cs) [] = None"

text \<open>
  The refresh of \<^verbatim>\<open>updated_at\<close>. In MySQL the column is declared
  \<^verbatim>\<open>ON UPDATE CURRENT_TIMESTAMP\<close>, which sets it when the update changes the value of some
  other column of the row. In PostgreSQL the trigger \<^verbatim>\<open>update_tasks_updated_at\<close> sets it
  before every update of a row.
\<close>

fun touch :: "backend \<Rightarrow> nat \<Rightarrow> (task \<Rightarrow> task) \<Rightarrow> task \<Rightarrow> task" where
  "touch MySQL now f t = (if f t = t then t else (f t)\<lparr>updated_at := now\<rparr>)"
| "touch PostgreSQL now f t = (f t)\<lparr>updated_at := now\<rparr>"

text \<open>
  \<^verbatim>\<open>ORDER BY created_at DESC\<close>. SQL leaves the order of rows with equal keys open; the model
  fixes one.
\<close>

definition order_by_created_desc :: "task list \<Rightarrow> task list" where
  "order_by_created_desc ts = rev (sort_key created_at ts)"

text \<open>
  The answers: the rows of a \<^verbatim>\<open>SELECT\<close> and of a PostgreSQL \<^verbatim>\<open>RETURNING *\<close>, and the
  header of mysql2 for the other statements of the MySQL router, where \<^verbatim>\<open>affectedRows\<close>
  counts the rows that the \<^verbatim>\<open>WHERE\<close> clause matches.
\<close>

definition returning :: "backend \<Rightarrow> task list \<Rightarrow> jsval list" where
  "returning b ts = (case b of MySQL \<Rightarrow> [] | PostgreSQL \<Rightarrow> map task_json ts)"

definition exec_select_all :: "database \<Rightarrow> qresult" where
  "exec_select_all db =
     \<lparr>rows = map task_json (order_by_created_desc (tasks db)), insertId = 0, affectedRows = 0\<rparr>"

definition exec_select :: "nat \<Rightarrow> database \<Rightarrow> qresult" where
  "exec_select n db =
     \<lparr>rows = map task_json (filter (\<lambda>t. task_id t = n) (tasks db)), insertId = 0, affectedRows = 0\<rparr>"

definition exec_insert ::
  "backend \<Rightarrow> nat \<Rightarrow> string \<Rightarrow> string option \<Rightarrow> string option \<Rightarrow> database \<Rightarrow> qresult \<times> database" where
  "exec_insert b now t d s db =
     (let new = \<lparr>task_id = next_id db, task_title = t, task_description = d, task_status = s,
                 created_at = now, updated_at = now\<rparr>
      in (\<lparr>rows = returning b [new], insertId = int (next_id db), affectedRows = 1\<rparr>,
          db\<lparr>tasks := tasks db @ [new], next_id := next_id db + 1\<rparr>))"

definition exec_update ::
  "backend \<Rightarrow> nat \<Rightarrow> (task \<Rightarrow> task) \<Rightarrow> nat \<Rightarrow> database \<Rightarrow> qresult \<times> database" where
  "exec_update b now f n db =
     (let hit = filter (\<lambda>t. task_id t = n) (tasks db)
      in (\<lparr>rows = returning b (map (touch b now f) hit), insertId = 0, affectedRows = length hit\<rparr>,
          db\<lparr>tasks := map (\<lambda>t. if task_id t = n then touch b now f t else t) (tasks db)\<rparr>))"

definition exec_delete :: "backend \<Rightarrow> nat \<Rightarrow> database \<Rightarrow> qresult \<times> database" where
  "exec_delete b n db =
     (let hit = filter (\<lambda>t. task_id t = n) (tasks db)
      in (\<lparr>rows = returning b hit, insertId = 0, affectedRows = length hit\<rparr>,
          db\<lparr>tasks := filter (\<lambda>t. task_id t \<noteq> n) (tasks db)\<rparr>))"

text \<open>
  The pool of one backend, in front of its server: the statement is recognised by its text,
  its parameters are bound, and it is run at the clock reading \<open>now\<close>.
\<close>

definition engine :: "backend \<Rightarrow> nat \<Rightarrow> query \<Rightarrow> database \<Rightarrow> (answer \<times> database) option" where
  "engine b now q db =
     (if sql q = select_all_sql then
        (case params q of [] \<Rightarrow> Some (Inr (exec_select_all db), db) | _ \<Rightarrow> None)
      else if sql q = select_sql b then
        (case params q of
           [p] \<Rightarrow> (case as_id p of None \<Rightarrow> None | Some n \<Rightarrow> Some (Inr (exec_select n db), db))
         | _ \<Rightarrow> None)
      else if sql q = insert_sql b then
        (case params q of
           [p1, p2, p3] \<Rightarrow>
             (case (as_title p1, as_description b p2, as_status p3) of
                (Some t, Some d, Some s) \<Rightarrow>
                  if next_id db \<le> int_max
                  then (case exec_insert b now t d s db of (r, db') \<Rightarrow> Some (Inr r, db'))
                  else None
              | _ \<Rightarrow> None)
         | _ \<Rightarrow> None)
      else if sql q = delete_sql b then
        (case params q of
           [p] \<Rightarrow> (case as_id p of
                     None \<Rightarrow> None
                   | Some n \<Rightarrow> (case exec_delete b n db of (r, db') \<Rightarrow> Some (Inr r, db')))
         | _ \<Rightarrow> None)
      else
        (case find (\<lambda>cols. sql q = update_sql b cols) column_sets of
           None \<Rightarrow> None
         | Some cols \<Rightarrow>
             if params q = [] then None
             else (case (set_columns b cols (butlast (params q)), as_id (last (params q))) of
                     (Some f, Some n) \<Rightarrow>
                       (case exec_update b now f n db of (r, db') \<Rightarrow> Some (Inr r, db'))
                   | _ \<Rightarrow> None)))"




section \<open>Validation that answers before the pool is reached\<close>

lemma get_prop_removed: "get_prop (filter (\<lambda>kv. fst kv \<noteq> k) obj) k = JUndefined"
proof -
  have "k \<notin> fst ` set (rev (filter (\<lambda>kv. fst kv \<noteq> k) obj))"
    by auto
  then have "map_of (rev (filter (\<lambda>kv. fst kv \<noteq> k) obj)) k = None"
    by (simp add: map_of_eq_None_iff)
  then show ?thesis
    by (simp add: get_prop_def)
qed

text \<open>
  C10. A \<^verbatim>\<open>POST /tasks\<close> whose title is falsy (the empty string, \<^verbatim>\<open>null\<close>,
  \<^verbatim>\<open>0\<close>, \<^verbatim>\<open>false\<close> or absent) is answered 400 with the error
  \<open>Title is required\<close> under both routers; the answer is the one given to the same body
  with the title member removed, and the handler issues no statement, so that a run against
  any pool leaves the state of the pool as it was.
\<close>

theorem post_falsy_title_rejected:
  assumes "\<not> truthy (get_prop reqbody ''title'')"
  shows "routes b (PostTask reqbody) =
           Respond \<lparr>status_code = 400,
                    body = [(''success'', JBool False), (''error'', JStr ''Title is required'')]\<rparr>
       \<and> routes b (PostTask reqbody) =
           routes b (PostTask (filter (\<lambda>kv. fst kv \<noteq> ''title'') reqbody))
       \<and> issued (routes b (PostTask reqbody)) = None
       \<and> statements a (routes b (PostTask reqbody)) = []
       \<and> run pool (routes b (PostTask reqbody)) s =
           Some (\<lparr>status_code = 400,
                   body = [(''success'', JBool False), (''error'', JStr ''Title is required'')]\<rparr>, s)"
proof -
  let ?r = "Respond \<lparr>status_code = 400,
                     body = [(''success'', JBool False), (''error'', JStr ''Title is required'')]\<rparr>"
  have absent: "\<not> truthy (get_prop (filter (\<lambda>kv. fst kv \<noteq> ''title'') reqbody) ''title'')"
    by (simp only: get_prop_removed truthy.simps not_False_eq_True)
  have post: "routes b (PostTask obj) = ?r" if "\<not> truthy (get_prop obj ''title'')" for obj
    using that
    by (cases b) (simp_all add: mysql_post_task_def pg_post_task_def Let_def respond_def json_def)
  show ?thesis
    by (simp add: post [OF assms] post [OF absent])
qed

theorem post_falsy_title_rejected_witness:
  "\<not> truthy (get_prop [(''title'', JStr []), (''status'', JStr ''completed'')] ''title'')
   \<and> routes MySQL (PostTask [(''title'', JStr []), (''status'', JStr ''completed'')]) =
       Respond \<lparr>status_code = 400,
                body = [(''success'', JBool False), (''error'', JStr ''Title is required'')]\<rparr>
   \<and> \<not> truthy (get_prop [(''title'', JNull)] ''title'')
   \<and> routes PostgreSQL (PostTask [(''title'', JNull)]) =
       Respond \<lparr>status_code = 400,
                body = [(''success'', JBool False), (''error'', JStr ''Title is required'')]\<rparr>"
proof -
  have h1: "\<not> truthy (get_prop [(''title'', JStr []), (''status'', JStr ''completed'')] ''title'')"
    by (simp add: get_prop_def)
  have h2: "\<not> truthy (get_prop [(''title'', JNull)] ''title'')"
    by (simp add: get_prop_def)
  have r1: "routes MySQL (PostTask [(''title'', JStr []), (''status'', JStr ''completed'')]) =
       Respond \<lparr>status_code = 400,
                body = [(''success'', JBool False), (''error'', JStr ''Title is required'')]\<rparr>"
    using post_falsy_title_rejected [OF h1, of MySQL] by (rule conjunct1)
  have r2: "routes PostgreSQL (PostTask [(''title'', JNull)]) =
       Respond \<lparr>status_code = 400,
                body = [(''success'', JBool False), (''error'', JStr ''Title is required'')]\<rparr>"
    using post_falsy_title_rejected [OF h2, of PostgreSQL] by (rule conjunct1)
  show ?thesis
    using h1 h2 r1 r2 by (intro conjI)
qed

text \<open>
  C5. A \<^verbatim>\<open>PUT /tasks/:id\<close> whose body has none of the members \<open>title\<close>,
  \<open>description\<close> and \<open>status\<close> is answered 400 with the error
  \<open>No fields to update\<close> under both routers. The handler issues no statement: run against
  any pool, it leaves the state of the pool as it was.
\<close>

theorem put_without_fields_rejected:
  assumes "get_prop reqbody ''title'' = JUndefined"
    and "get_prop reqbody ''description'' = JUndefined"
    and "get_prop reqbody ''status'' = JUndefined"
  shows "routes b (PutTask ident reqbody) =
           Respond \<lparr>status_code = 400,
                    body = [(''success'', JBool False), (''error'', JStr ''No fields to update'')]\<rparr>
       \<and> issued (routes b (PutTask ident reqbody)) = None
       \<and> statements a (routes b (PutTask ident reqbody)) = []
       \<and> run pool (routes b (PutTask ident reqbody)) s =
           Some (\<lparr>status_code = 400,
                   body = [(''success'', JBool False), (''error'', JStr ''No fields to update'')]\<rparr>, s)"
proof -
  have "routes b (PutTask ident reqbody) =
          Respond \<lparr>status_code = 400,
                   body = [(''success'', JBool False), (''error'', JStr ''No fields to update'')]\<rparr>"
    using assms
    by (cases b)
       (simp_all add: mysql_put_task_def pg_put_task_def mysql_push_def pg_push_def Let_def
          respond_def json_def)
  then show ?thesis
    by simp
qed

theorem put_without_fields_rejected_witness:
  "get_prop [(''priority'', JNum 3)] ''title'' = JUndefined
   \<and> get_prop [(''priority'', JNum 3)] ''description'' = JUndefined
   \<and> get_prop [(''priority'', JNum 3)] ''status'' = JUndefined
   \<and> routes MySQL (PutTask ''7'' [(''priority'', JNum 3)]) =
       Respond \<lparr>status_code = 400,
                body = [(''success'', JBool False), (''error'', JStr ''No fields to update'')]\<rparr>
   \<and> routes PostgreSQL (PutTask ''7'' [(''priority'', JNum 3)]) =
       Respond \<lparr>status_code = 400,
                body = [(''success'', JBool False), (''error'', JStr ''No fields to update'')]\<rparr>"
proof -
  have h1: "get_prop [(''priority'', JNum 3)] ''title'' = JUndefined"
    and h2: "get_prop [(''priority'', JNum 3)] ''description'' = JUndefined"
    and h3: "get_prop [(''priority'', JNum 3)] ''status'' = JUndefined"
    by (simp_all add: get_prop_def)
  have r1: "routes MySQL (PutTask ''7'' [(''priority'', JNum 3)]) =
       Respond \<lparr>status_code = 400,
                body = [(''success'', JBool False), (''error'', JStr ''No fields to update'')]\<rparr>"
    using put_without_fields_rejected [OF h1 h2 h3, of MySQL "''7''"] by (rule conjunct1)
  have r2: "routes PostgreSQL (PutTask ''7'' [(''priority'', JNum 3)]) =
       Respond \<lparr>status_code = 400,
                body = [(''success'', JBool False), (''error'', JStr ''No fields to update'')]\<rparr>"
    using put_without_fields_rejected [OF h1 h2 h3, of PostgreSQL "''7''"] by (rule conjunct1)
  show ?thesis
    using h1 h2 h3 r1 r2 by (intro conjI)
qed




section \<open>The identifier in the path\<close>

lemma get_task_status_codes:
  "status_code (reply a (routes b (GetTask ident))) =
     (case a of Inl message \<Rightarrow> 500 | Inr result \<Rightarrow> if rows result = [] then 404 else 200)"
  by (cases b; cases a)
     (simp_all add: mysql_get_task_def pg_get_task_def failure_def not_found_def respond_def)

text \<open>
  C2. Neither \<^verbatim>\<open>router.get('/tasks/:id')\<close> looks at the form of \<^verbatim>\<open>req.params.id\<close>: for
  the path \<^verbatim>\<open>/tasks/invalid\<close>, the route tested by \<open>should validate ID parameter\<close>
  in both test suites, each handler hands the text to the pool, and the status it sends is
  404 when the pool finds no row and 500 when the pool throws; no answer of the pool makes
  it 400.
\<close>

theorem get_task_invalid_id_reaches_pool:
  "issued (routes MySQL (GetTask ''invalid'')) =
     Some \<lparr>sql = ''SELECT * FROM tasks WHERE id = ?'', params = [JStr ''invalid'']\<rparr>
   \<and> issued (routes PostgreSQL (GetTask ''invalid'')) =
     Some \<lparr>sql = ''SELECT * FROM tasks WHERE id = $1'', params = [JStr ''invalid'']\<rparr>
   \<and> reply (Inr \<lparr>rows = [], insertId = 0, affectedRows = 0\<rparr>) (routes MySQL (GetTask ''invalid'')) =
     \<lparr>status_code = 404, body = [(''success'', JBool False), (''error'', JStr ''Task not found'')]\<rparr>
   \<and> reply (Inr \<lparr>rows = [], insertId = 0, affectedRows = 0\<rparr>) (routes PostgreSQL (GetTask ''invalid'')) =
     \<lparr>status_code = 404, body = [(''success'', JBool False), (''error'', JStr ''Task not found'')]\<rparr>
   \<and> reply (Inl ''invalid input syntax for type integer'') (routes PostgreSQL (GetTask ''invalid'')) =
     \<lparr>status_code = 500,
      body = [(''success'', JBool False), (''error'', JStr ''Failed to fetch task''),
              (''message'', JStr ''invalid input syntax for type integer'')]\<rparr>
   \<and> status_code (reply a (routes b (GetTask ''invalid''))) \<noteq> 400"
proof -
  have "status_code (reply a (routes b (GetTask ''invalid''))) \<noteq> 400"
    by (simp add: get_task_status_codes split: sum.split)
  then show ?thesis
    by (simp add: mysql_get_task_def pg_get_task_def failure_def not_found_def respond_def json_def)
qed

section \<open>The two routers side by side\<close>

text \<open>
  Apart from a successful \<^verbatim>\<open>DELETE\<close>, the two routers send the same response (status code
  and body) for the same request and the same outcome.
\<close>

lemma routers_agree_status:
  assumes "same_outcome a"
  shows "status_code (reply a (routes MySQL req)) = status_code (reply a (routes PostgreSQL req))"
proof (cases req)
  case GetTasks
  then show ?thesis
    by (cases a) (simp_all add: mysql_get_tasks_def pg_get_tasks_def)
next
  case (GetTask ident)
  then show ?thesis
    using get_task_status_codes [of a MySQL ident] get_task_status_codes [of a PostgreSQL ident]
    by simp
next
  case (PostTask reqbody)
  then show ?thesis
    by (cases a) (simp_all add: mysql_post_task_def pg_post_task_def Let_def)
next
  case (PutTask ident reqbody)
  then show ?thesis
    using assms
    by (cases a)
       (auto simp add: mysql_put_task_def pg_put_task_def Let_def mysql_push_def pg_push_def
          same_outcome_def)
next
  case (DeleteTask ident)
  then show ?thesis
    using assms
    by (cases a) (auto simp add: mysql_delete_task_def pg_delete_task_def same_outcome_def
          failure_def not_found_def respond_def)
qed

lemma routers_agree_body:
  assumes "same_outcome a"
    and "\<forall>ident. req \<noteq> DeleteTask ident"
  shows "body (reply a (routes MySQL req)) = body (reply a (routes PostgreSQL req))"
proof (cases req)
  case GetTasks
  then show ?thesis
    by (cases a) (simp_all add: mysql_get_tasks_def pg_get_tasks_def)
next
  case (GetTask ident)
  then show ?thesis
    by (cases a) (simp_all add: mysql_get_task_def pg_get_task_def)
next
  case (PostTask reqbody)
  then show ?thesis
    by (cases a) (simp_all add: mysql_post_task_def pg_post_task_def Let_def)
next
  case (PutTask ident reqbody)
  then show ?thesis
    using assms(1)
    by (cases a)
       (auto simp add: mysql_put_task_def pg_put_task_def Let_def mysql_push_def pg_push_def
          same_outcome_def)
next
  case (DeleteTask ident)
  with assms(2) show ?thesis
    by simp
qed

text \<open>
  C3. For \<^verbatim>\<open>DELETE /tasks/1\<close> and the outcome "one row deleted", both routers answer 200,
  but the body of the MySQL router has the members \<open>success\<close> and \<open>message\<close> while the
  body of the PostgreSQL router has a third member, \<open>deletedTask\<close>.
\<close>

theorem delete_success_bodies_differ:
  "same_outcome (Inr \<lparr>rows = [JObj [(''id'', JNum 1), (''title'', JStr ''Task 1'')]],
                      insertId = 0, affectedRows = 1\<rparr>)
   \<and> reply (Inr \<lparr>rows = [JObj [(''id'', JNum 1), (''title'', JStr ''Task 1'')]],
                 insertId = 0, affectedRows = 1\<rparr>) (routes MySQL (DeleteTask ''1'')) =
       \<lparr>status_code = 200,
        body = [(''success'', JBool True), (''message'', JStr ''Task deleted successfully'')]\<rparr>
   \<and> reply (Inr \<lparr>rows = [JObj [(''id'', JNum 1), (''title'', JStr ''Task 1'')]],
                 insertId = 0, affectedRows = 1\<rparr>) (routes PostgreSQL (DeleteTask ''1'')) =
       \<lparr>status_code = 200,
        body = [(''success'', JBool True), (''message'', JStr ''Task deleted successfully''),
                (''deletedTask'', JObj [(''id'', JNum 1), (''title'', JStr ''Task 1'')])]\<rparr>"
  by (simp add: same_outcome_def mysql_delete_task_def pg_delete_task_def respond_def json_def
        js_index_def)

section \<open>The statement built by the update route\<close>

lemma show_nat_small [simp]:
  "show_nat (Suc 0) = ''1''"
  "show_nat (Suc (Suc 0)) = ''2''"
  "show_nat (Suc (Suc (Suc 0))) = ''3''"
  "show_nat (Suc (Suc (Suc (Suc 0)))) = ''4''"
  "show_nat 1 = ''1''"
  "show_nat 2 = ''2''"
  "show_nat 3 = ''3''"
  "show_nat 4 = ''4''"
  by (simp_all add: show_nat.simps)







section \<open>The status values handed to the repository\<close>



section \<open>The verdict of the health endpoint\<close>

text \<open>
  C9, as the two variants of the endpoint implement it. The variant that reads
  \<^verbatim>\<open>NODE_ENV\<close> answers 200 exactly when the probes required by the mode succeed and 503
  otherwise; the variant of lines 86 to 103 answers 200 exactly when both probes succeed,
  whatever the mode, and 503 otherwise. Both report each backend by itself as
  \<open>connected\<close> or \<open>disconnected\<close>.
\<close>

theorem health_verdict:
  "(status_code (health_mode node_env timestamp m p) = 200) =
      required_probes_succeed node_env (testConnection m) (testConnection p)
   \<and> (status_code (health_mode node_env timestamp m p) = 503) =
      (\<not> required_probes_succeed node_env (testConnection m) (testConnection p))
   \<and> get_prop (body (health_mode node_env timestamp m p)) ''databases'' =
      JObj [(''mysql'', JStr (if testConnection m then ''connected'' else ''disconnected'')),
            (''postgresql'', JStr (if testConnection p then ''connected'' else ''disconnected''))]
   \<and> (status_code (health_both timestamp m p) = 200) = (testConnection m \<and> testConnection p)
   \<and> (status_code (health_both timestamp m p) = 503) = (\<not> (testConnection m \<and> testConnection p))
   \<and> get_prop (body (health_both timestamp m p)) ''databases'' =
      JObj [(''mysql'', JStr (if testConnection m then ''connected'' else ''disconnected'')),
            (''postgresql'', JStr (if testConnection p then ''connected'' else ''disconnected''))]"
  by (simp add: health_mode_def health_both_def required_probes_succeed_def Let_def json_def
        get_prop_def)

theorem health_verdict_witness:
  "status_code (health_mode (Some ''production'') ''2024-01-01T00:00:00.000Z''
      (Refused ''connect ECONNREFUSED'') Connected) = 200
   \<and> status_code (health_mode None ''2024-01-01T00:00:00.000Z''
      (Refused ''connect ECONNREFUSED'') Connected) = 503
   \<and> get_prop (body (health_mode None ''2024-01-01T00:00:00.000Z''
      (Refused ''connect ECONNREFUSED'') Connected)) ''databases'' =
      JObj [(''mysql'', JStr ''disconnected''), (''postgresql'', JStr ''connected'')]"
  using health_verdict [of "Some ''production''" "''2024-01-01T00:00:00.000Z''"
      "Refused ''connect ECONNREFUSED''" Connected]
    health_verdict [of None "''2024-01-01T00:00:00.000Z''"
      "Refused ''connect ECONNREFUSED''" Connected]
  by (simp add: required_probes_succeed_def)

text \<open>
  The claim C9 as it is worded fails on the variant of lines 86 to 103: in production, with
  MySQL unreachable and PostgreSQL reachable, the probe required by the mode succeeds, and
  the endpoint answers 503.
\<close>

theorem health_production_counterexample:
  "required_probes_succeed (Some ''production'')
      (testConnection (Refused ''connect ECONNREFUSED'')) (testConnection Connected)
   \<and> status_code (health_both ''2024-01-01T00:00:00.000Z''
        (Refused ''connect ECONNREFUSED'') Connected) = 503"
  by (simp add: required_probes_succeed_def health_both_def Let_def)
section \<open>The engine on each statement of the handlers\<close>




lemma engine_delete:
  "engine b now \<lparr>sql = delete_sql b, params = [p]\<rparr> db =
     (case as_id p of
        None \<Rightarrow> None
      | Some n \<Rightarrow> (case exec_delete b n db of (r, db') \<Rightarrow> Some (Inr r, db')))"
  by (induction b) (simp_all add: engine_def select_all_sql_def pg_insert_sql_def)





section \<open>Listing the tasks\<close>






section \<open>Creating a task\<close>







section \<open>Updating a task\<close>









lemma task_json_defined [simp]: "task_json t \<noteq> JUndefined"
  by (simp add: task_json_def)









section \<open>A status outside the enumeration\<close>



end
